theory Spec2Isabelle
  imports Complex_Main "HOL-Library.AList"
begin

section \<open>Texts and character classes\<close>

text \<open>
  A Python \<open>str\<close> is modelled as a \<open>string\<close> whose characters are the code points
  U+0000 to U+00FF. In that range the class \<open>\d\<close> of the \<open>re\<close> module is the ten ASCII
  digits, and \<open>\s\<close> and \<open>str.strip()\<close> agree on the whitespace characters listed in
  \<open>is_space\<close>.
\<close>

definition is_digit :: "char \<Rightarrow> bool" where
  "is_digit c = (c \<in> set ''0123456789'')"

definition is_space :: "char \<Rightarrow> bool" where
  "is_space c = (c \<in> set [CHR 0x09, CHR 0x0A, CHR 0x0B, CHR 0x0C, CHR 0x0D,
                            CHR 0x1C, CHR 0x1D, CHR 0x1E, CHR 0x1F, CHR 0x20,
                            CHR 0x85, CHR 0xA0])"

text \<open>\<open>s.strip()\<close>: whitespace removed at both ends.\<close>

definition py_strip :: "string \<Rightarrow> string" where
  "py_strip s = rev (dropWhile is_space (rev (dropWhile is_space s)))"

text \<open>\<open>int(s)\<close> on a text; \<open>None\<close> stands for \<open>ValueError\<close>. Only the unsigned digit
  strings that the date patterns capture are accepted.\<close>

definition digit_val :: "char \<Rightarrow> int" where
  "digit_val c = int (length (takeWhile (\<lambda>d. d \<noteq> c) ''0123456789''))"

definition py_int :: "string \<Rightarrow> int option" where
  "py_int s = (if s \<noteq> [] \<and> list_all is_digit s
               then Some (foldl (\<lambda>a c. 10 * a + digit_val c) 0 s) else None)"

section \<open>Decimals\<close>

text \<open>
  A finite \<open>decimal.Decimal\<close>: sign, coefficient and exponent, as the constructor
  keeps them (\<open>Decimal("-12.00")\<close> has coefficient 1200 and exponent -2).
\<close>

record Decimal =
  dec_neg :: bool
  dec_coeff :: nat
  dec_exp :: int

text \<open>\<open>bool(d)\<close>: a Decimal is falsy exactly when it is zero.\<close>

definition dec_truthy :: "Decimal \<Rightarrow> bool" where
  "dec_truthy d = (dec_coeff d \<noteq> 0)"

text \<open>The number a Decimal denotes.\<close>

definition dec_value :: "Decimal \<Rightarrow> rat" where
  "dec_value d = (if dec_neg d then - 1 else 1) * of_nat (dec_coeff d) *
                 (if 0 \<le> dec_exp d then 10 ^ nat (dec_exp d) else 1 / 10 ^ nat (- dec_exp d))"

definition digits_nat :: "string \<Rightarrow> nat" where
  "digits_nat s = foldl (\<lambda>a c. 10 * a + nat (digit_val c)) 0 s"

text \<open>The optional sign in front of a number: the flag and the rest of the text.\<close>

fun split_sign :: "string \<Rightarrow> bool \<times> string" where
  "split_sign [] = (False, [])"
| "split_sign (c # r) = (if c = CHR ''-'' then (True, r)
                          else if c = CHR ''+'' then (False, r) else (False, c # r))"

text \<open>The exponent part \<open>E[+-]digits\<close> up to the end of the text; the empty text is
  exponent 0.\<close>

fun parse_exponent :: "string \<Rightarrow> int option" where
  "parse_exponent [] = Some 0"
| "parse_exponent (c # r) =
     (if c = CHR ''e'' \<or> c = CHR ''E'' then
        (case split_sign r of (neg, ds) \<Rightarrow>
           (case py_int ds of None \<Rightarrow> None
            | Some n \<Rightarrow> Some (if neg then - n else n)))
      else None)"

text \<open>
  \<open>Decimal(s)\<close> for a text \<open>s\<close>. The constructor strips whitespace, drops underscores and
  reads \<open>[sign] digits [. digits] [E [sign] digits]\<close> with at least one digit before the
  exponent. The result is \<open>None\<close> when the constructor raises \<open>InvalidOperation\<close>, and also
  for the spellings of infinity and NaN, whose values are not finite numbers.
\<close>

definition py_Decimal :: "string \<Rightarrow> Decimal option" where
  "py_Decimal s =
     (case split_sign (filter (\<lambda>c. c \<noteq> CHR ''_'') (py_strip s)) of (neg, t) \<Rightarrow>
        (let ip = takeWhile is_digit t; t2 = dropWhile is_digit t;
             has_point = (t2 \<noteq> [] \<and> hd t2 = CHR ''.'');
             fp = (if has_point then takeWhile is_digit (tl t2) else []);
             t3 = (if has_point then dropWhile is_digit (tl t2) else t2)
         in if ip = [] \<and> fp = [] then None
            else (case parse_exponent t3 of None \<Rightarrow> None
                  | Some e \<Rightarrow> Some \<lparr>dec_neg = neg, dec_coeff = digits_nat (ip @ fp),
                                     dec_exp = e - int (length fp)\<rparr>)))"

section \<open>Calendar dates\<close>

record date =
  year :: int
  month :: int
  day :: int

definition is_leap :: "int \<Rightarrow> bool" where
  "is_leap y = (y mod 4 = 0 \<and> (y mod 100 \<noteq> 0 \<or> y mod 400 = 0))"

definition days_in_month :: "int \<Rightarrow> int \<Rightarrow> int" where
  "days_in_month y m =
     (if m = 2 then (if is_leap y then 29 else 28)
      else if m = 4 \<or> m = 6 \<or> m = 9 \<or> m = 11 then 30 else 31)"

text \<open>\<open>datetime.date(y, m, d)\<close>; \<open>None\<close> stands for \<open>ValueError\<close>.\<close>

definition py_date :: "int \<Rightarrow> int \<Rightarrow> int \<Rightarrow> date option" where
  "py_date y m d =
     (if 1 \<le> y \<and> y \<le> 9999 \<and> 1 \<le> m \<and> m \<le> 12 \<and> 1 \<le> d \<and> d \<le> days_in_month y m
      then Some \<lparr>year = y, month = m, day = d\<rparr> else None)"

section \<open>The regular expressions of the date patterns\<close>

text \<open>
  The three patterns are concatenations of capturing groups \<open>(\d{lo,hi})\<close> and single
  separators \<open>[/-]\<close>. \<open>Grp lo hi\<close> is such a group, \<open>Sep\<close> the separator class.
\<close>

datatype item = Grp nat nat | Sep

type_synonym pattern = "item list"

definition is_sep :: "char \<Rightarrow> bool" where
  "is_sep c = (c = CHR ''/'' \<or> c = CHR ''-'')"

fun first_some :: "'a option list \<Rightarrow> 'a option" where
  "first_some [] = None"
| "first_some (None # xs) = first_some xs"
| "first_some (Some x # xs) = Some x"

text \<open>
  A backtracking match of a pattern at the start of a text, returning the captured
  groups. A group is greedy: the longest run of digits allowed is tried first, then
  shorter ones down to \<open>lo\<close>.
\<close>

fun match_here :: "pattern \<Rightarrow> string \<Rightarrow> string list option" where
  "match_here [] s = Some []"
| "match_here (Sep # p) s =
     (case s of [] \<Rightarrow> None
      | c # r \<Rightarrow> if is_sep c then match_here p r else None)"
| "match_here (Grp lo hi # p) s =
     (let k = min hi (length (takeWhile is_digit s))
      in first_some (map (\<lambda>n. map_option (\<lambda>gs. take n s # gs) (match_here p (drop n s)))
                         (rev [lo ..< Suc k])))"

text \<open>\<open>re.search(pattern, v)\<close>: the match at the leftmost position that has one; the
  result is \<open>match.groups()\<close>.\<close>

fun re_search :: "pattern \<Rightarrow> string \<Rightarrow> string list option" where
  "re_search p s =
     (case match_here p s of Some gs \<Rightarrow> Some gs
      | None \<Rightarrow> (case s of [] \<Rightarrow> None | c # r \<Rightarrow> re_search p r))"

section \<open>Values handed to the validators\<close>

text \<open>
  A raw field value is absent, a text, or already typed. The validators test
  \<open>v is None\<close> and \<open>isinstance(v, str)\<close> and return every other value as it is.
\<close>

datatype raw = RNone | RStr string | RInt int | RDecimal Decimal | RDate date

subsection \<open>ContactInfo.clean_phone\<close>

definition phone_char :: "char \<Rightarrow> bool" where
  "phone_char c = (is_digit c \<or> c = CHR ''+'' \<or> c = CHR ''-'' \<or> c = CHR ''('' \<or> c = CHR '')''
                   \<or> is_space c)"

text \<open>The field is an optional text; \<open>if v:\<close> is false for \<open>None\<close> and for the empty
  text.\<close>

definition clean_phone :: "string option \<Rightarrow> string option" where
  "clean_phone v =
     (case v of None \<Rightarrow> None
      | Some s \<Rightarrow> if s \<noteq> [] then Some (py_strip (filter phone_char s)) else Some s)"

subsection \<open>The currency validators\<close>

definition price_char :: "char \<Rightarrow> bool" where
  "price_char c = (is_digit c \<or> c = CHR ''.'' \<or> c = CHR '','' \<or> c = CHR ''-'')"

text \<open>\<open>LineItem.parse_price\<close>, for \<open>unit_price\<close> and \<open>total_price\<close>.\<close>

definition parse_price :: "raw \<Rightarrow> raw" where
  "parse_price v =
     (case v of
        RNone \<Rightarrow> RNone
      | RStr s \<Rightarrow>
          (let cleaned = filter price_char s
           in if cleaned \<noteq> [] then
                (case py_Decimal (filter (\<lambda>c. c \<noteq> CHR '','') cleaned) of
                   Some d \<Rightarrow> RDecimal d
                 | None \<Rightarrow> RNone)
              else v)
      | _ \<Rightarrow> v)"

text \<open>\<open>TaxInfo.parse_tax_amount\<close>, for \<open>tax_amount\<close>.\<close>

definition parse_tax_amount :: "raw \<Rightarrow> raw" where
  "parse_tax_amount v =
     (case v of
        RNone \<Rightarrow> RNone
      | RStr s \<Rightarrow>
          (let cleaned = filter price_char s
           in if cleaned \<noteq> [] then
                (case py_Decimal (filter (\<lambda>c. c \<noteq> CHR '','') cleaned) of
                   Some d \<Rightarrow> RDecimal d
                 | None \<Rightarrow> RNone)
              else v)
      | _ \<Rightarrow> v)"

text \<open>\<open>PaymentInfo.parse_amount\<close>, for \<open>paid_amount\<close> and \<open>balance_due\<close>.\<close>

definition parse_amount :: "raw \<Rightarrow> raw" where
  "parse_amount v =
     (case v of
        RNone \<Rightarrow> RNone
      | RStr s \<Rightarrow>
          (let cleaned = filter price_char s
           in if cleaned \<noteq> [] then
                (case py_Decimal (filter (\<lambda>c. c \<noteq> CHR '','') cleaned) of
                   Some d \<Rightarrow> RDecimal d
                 | None \<Rightarrow> RNone)
              else v)
      | _ \<Rightarrow> v)"

text \<open>\<open>StructuredDocument.parse_amounts\<close>, for \<open>subtotal\<close> and \<open>total_amount\<close>.\<close>

definition parse_amounts :: "raw \<Rightarrow> raw" where
  "parse_amounts v =
     (case v of
        RNone \<Rightarrow> RNone
      | RStr s \<Rightarrow>
          (let cleaned = filter price_char s
           in if cleaned \<noteq> [] then
                (case py_Decimal (filter (\<lambda>c. c \<noteq> CHR '','') cleaned) of
                   Some d \<Rightarrow> RDecimal d
                 | None \<Rightarrow> RNone)
              else v)
      | _ \<Rightarrow> v)"

subsection \<open>DocumentInfo.parse_date\<close>

definition date_patterns :: "pattern list" where
  "date_patterns = [[Grp 1 2, Sep, Grp 1 2, Sep, Grp 4 4],
                    [Grp 4 4, Sep, Grp 1 2, Sep, Grp 1 2],
                    [Grp 1 2, Sep, Grp 1 2, Sep, Grp 2 2]]"

text \<open>The body of the \<open>try\<close> for one matching pattern; \<open>None\<close> is any exception, which
  the \<open>except\<close> clause turns into \<open>continue\<close>.\<close>

definition date_of_groups :: "pattern \<Rightarrow> string list \<Rightarrow> date option" where
  "date_of_groups pat groups =
     (case groups of
        g0 # g1 # g2 # others \<Rightarrow>
          (case py_int g2 of
             None \<Rightarrow> None
           | Some n2 \<Rightarrow>
               (let y = (if length g2 = 2 then (if n2 < 50 then 2000 + n2 else 1900 + n2)
                         else n2)
                in if pat = date_patterns ! 0 then
                     (case (py_int g0, py_int g1) of
                        (Some n0, Some n1) \<Rightarrow> py_date y n0 n1
                      | _ \<Rightarrow> None)
                   else
                     (case py_int g1 of
                        Some n1 \<Rightarrow> py_date y n1 n2
                      | None \<Rightarrow> None)))
      | _ \<Rightarrow> None)"

fun parse_date_loop :: "pattern list \<Rightarrow> string \<Rightarrow> raw" where
  "parse_date_loop [] v = RStr v"
| "parse_date_loop (pat # rest) v =
     (case re_search pat v of
        None \<Rightarrow> parse_date_loop rest v
      | Some groups \<Rightarrow>
          (case date_of_groups pat groups of
             Some d \<Rightarrow> RDate d
           | None \<Rightarrow> parse_date_loop rest v))"

definition parse_date :: "raw \<Rightarrow> raw" where
  "parse_date v =
     (case v of
        RNone \<Rightarrow> RNone
      | RStr s \<Rightarrow> parse_date_loop date_patterns s
      | _ \<Rightarrow> v)"

subsection \<open>Storing a validator's result in a Decimal field\<close>

text \<open>
  The validators above are declared with \<open>pre=True\<close>: the value they return is then
  checked by pydantic against the field type \<open>Optional[Decimal]\<close>. That check belongs to
  the pydantic library, not to this repository; it is modelled here from its documented
  behaviour: \<open>None\<close> and a Decimal are stored as they are, an integer is converted, a text
  is stored when \<open>Decimal(text)\<close> is a finite number, and anything else is rejected with
  a \<open>ValidationError\<close>, which the constructor of the record raises.
\<close>

datatype error = ValidationError

definition decimal_validator :: "raw \<Rightarrow> error + Decimal option" where
  "decimal_validator v =
     (case v of
        RNone \<Rightarrow> Inr None
      | RDecimal d \<Rightarrow> Inr (Some d)
      | RInt i \<Rightarrow> Inr (Some \<lparr>dec_neg = (i < 0), dec_coeff = nat \<bar>i\<bar>, dec_exp = 0\<rparr>)
      | RStr s \<Rightarrow> (case py_Decimal s of Some d \<Rightarrow> Inr (Some d)
                   | None \<Rightarrow> Inl ValidationError)
      | RDate d \<Rightarrow> Inl ValidationError)"

text \<open>
  The value of one Decimal field after \<open>Record(**m)\<close>: a key that is missing from the
  mapping leaves the default \<open>None\<close> and runs no validator; otherwise the field's
  validator runs first and the type check second.
\<close>

definition decimal_field :: "(raw \<Rightarrow> raw) \<Rightarrow> (string \<times> raw) list \<Rightarrow> string
    \<Rightarrow> error + Decimal option" where
  "decimal_field validator m key =
     (case map_of m key of
        None \<Rightarrow> Inr None
      | Some v \<Rightarrow> decimal_validator (validator v))"

text \<open>The Decimal fields of \<open>LineItem(**m)\<close>: \<open>(unit_price, total_price)\<close>, or the error
  the constructor raises.\<close>

definition LineItem_prices :: "(string \<times> raw) list \<Rightarrow> error + (Decimal option \<times> Decimal option)"
  where
  "LineItem_prices m =
     (case decimal_field parse_price m ''unit_price'' of
        Inl e \<Rightarrow> Inl e
      | Inr u \<Rightarrow> (case decimal_field parse_price m ''total_price'' of
                    Inl e \<Rightarrow> Inl e
                  | Inr t \<Rightarrow> Inr (u, t)))"

text \<open>The Decimal field of \<open>TaxInfo(**m)\<close>.\<close>

definition TaxInfo_tax_amount :: "(string \<times> raw) list \<Rightarrow> error + Decimal option" where
  "TaxInfo_tax_amount m = decimal_field parse_tax_amount m ''tax_amount''"

text \<open>The Decimal fields of \<open>PaymentInfo(**m)\<close>: \<open>(paid_amount, balance_due)\<close>.\<close>

definition PaymentInfo_amounts :: "(string \<times> raw) list
    \<Rightarrow> error + (Decimal option \<times> Decimal option)" where
  "PaymentInfo_amounts m =
     (case decimal_field parse_amount m ''paid_amount'' of
        Inl e \<Rightarrow> Inl e
      | Inr p \<Rightarrow> (case decimal_field parse_amount m ''balance_due'' of
                    Inl e \<Rightarrow> Inl e
                  | Inr b \<Rightarrow> Inr (p, b)))"

text \<open>The Decimal fields of \<open>StructuredDocument(...)\<close>: \<open>(subtotal, total_amount)\<close>.\<close>

definition StructuredDocument_amounts :: "(string \<times> raw) list
    \<Rightarrow> error + (Decimal option \<times> Decimal option)" where
  "StructuredDocument_amounts m =
     (case decimal_field parse_amounts m ''subtotal'' of
        Inl e \<Rightarrow> Inl e
      | Inr u \<Rightarrow> (case decimal_field parse_amounts m ''total_amount'' of
                    Inl e \<Rightarrow> Inl e
                  | Inr t \<Rightarrow> Inr (u, t)))"

subsection \<open>One pass of the loop of \<open>parse_date\<close>, and the reading of the specification\<close>

text \<open>The date that one pattern yields for a text: \<open>None\<close> when the pattern does not
  match, or when it matches and the \<open>try\<close> body raises.\<close>

definition date_attempt :: "pattern \<Rightarrow> string \<Rightarrow> date option" where
  "date_attempt pat v =
     (case re_search pat v of None \<Rightarrow> None | Some groups \<Rightarrow> date_of_groups pat groups)"

text \<open>
  The specification's wording, for comparison with \<open>parse_date\<close>: the first pattern that
  matches a substring decides the result alone, and a text that gives no date is passed
  through.
\<close>

fun first_match :: "pattern list \<Rightarrow> string \<Rightarrow> (pattern \<times> string list) option" where
  "first_match [] v = None"
| "first_match (pat # rest) v =
     (case re_search pat v of None \<Rightarrow> first_match rest v
      | Some groups \<Rightarrow> Some (pat, groups))"

definition parse_date_first_match_wins :: "string \<Rightarrow> raw" where
  "parse_date_first_match_wins v =
     (case first_match date_patterns v of
        None \<Rightarrow> RStr v
      | Some (pat, groups) \<Rightarrow>
          (case date_of_groups pat groups of Some d \<Rightarrow> RDate d | None \<Rightarrow> RStr v))"

section \<open>The records\<close>

text \<open>
  A Python \<open>float\<close> is kept as the decimal it is the nearest double of (a JSON number
  literal, or the argument of \<open>float(Decimal)\<close>); the rounding itself is not modelled.
\<close>

datatype pyfloat = Float_of Decimal

datatype number = NInt int | NFloat pyfloat

text \<open>A \<open>datetime\<close>: the date and the microseconds since midnight.\<close>

type_synonym datetime = "date \<times> nat"

record ContactInfo =
  name :: "string option"
  email :: "string option"
  phone :: "string option"
  address :: "string option"
  city :: "string option"
  state :: "string option"
  postal_code :: "string option"
  country :: "string option"

record LineItem =
  item_name :: "string option"
  quantity :: "number option"
  unit_price :: "Decimal option"
  total_price :: "Decimal option"
  item_code :: "string option"
  category :: "string option"

record TaxInfo =
  tax_rate :: "pyfloat option"
  tax_amount :: "Decimal option"
  tax_type :: "string option"

record PaymentInfo =
  payment_method :: "string option"
  payment_terms :: "string option"
  due_date :: "date option"
  paid_amount :: "Decimal option"
  balance_due :: "Decimal option"

record DocumentInfo =
  document_type :: "string option"
  document_number :: "string option"
  document_date :: "date option"
  reference_number :: "string option"

record StructuredDocument =
  document_info :: DocumentInfo
  vendor :: ContactInfo
  customer :: ContactInfo
  line_items :: "LineItem list"
  subtotal :: "Decimal option"
  tax_info :: TaxInfo
  total_amount :: "Decimal option"
  payment_info :: PaymentInfo
  notes_field :: "string option"
  currency :: "string option"
  source_filename :: "string option"
  processed_at :: "datetime option"
  confidence_score :: "pyfloat option"

section \<open>Flattening\<close>

text \<open>
  The values of an exported row. A row is a Python \<open>dict\<close>: an association list with
  distinct keys in insertion order; assigning to a key that is present keeps its place,
  a new key goes to the end.
\<close>

datatype pyval = VNone | VStr string | VInt int | VFloat pyfloat | VDate date
  | VDateTime datetime

type_synonym row = "(string \<times> pyval) list"

fun dict_update :: "row \<Rightarrow> (string \<times> pyval) list \<Rightarrow> row" where
  "dict_update d [] = d"
| "dict_update d ((k, v) # kvs) = dict_update (AList.update k v d) kvs"

definition py_opt :: "('a \<Rightarrow> pyval) \<Rightarrow> 'a option \<Rightarrow> pyval" where
  "py_opt f x = (case x of None \<Rightarrow> VNone | Some a \<Rightarrow> f a)"

definition num_val :: "number \<Rightarrow> pyval" where
  "num_val n = (case n of NInt i \<Rightarrow> VInt i | NFloat f \<Rightarrow> VFloat f)"

text \<open>\<open>float(x) if x else None\<close> for an optional Decimal \<open>x\<close>.\<close>

definition float_or_none :: "Decimal option \<Rightarrow> pyval" where
  "float_or_none x =
     (case x of None \<Rightarrow> VNone
      | Some d \<Rightarrow> if dec_truthy d then VFloat (Float_of d) else VNone)"

text \<open>The dict literal that \<open>to_flat_dict\<close> starts from.\<close>

definition flat_dict_literal :: "StructuredDocument \<Rightarrow> row" where
  "flat_dict_literal self =
       [(''document_type'', py_opt VStr (document_type (document_info self))),
        (''document_number'', py_opt VStr (document_number (document_info self))),
        (''document_date'', py_opt VDate (document_date (document_info self))),
        (''reference_number'', py_opt VStr (reference_number (document_info self))),
        (''vendor_name'', py_opt VStr (name (vendor self))),
        (''vendor_email'', py_opt VStr (email (vendor self))),
        (''vendor_phone'', py_opt VStr (phone (vendor self))),
        (''vendor_address'', py_opt VStr (address (vendor self))),
        (''vendor_city'', py_opt VStr (city (vendor self))),
        (''vendor_state'', py_opt VStr (state (vendor self))),
        (''vendor_postal_code'', py_opt VStr (postal_code (vendor self))),
        (''vendor_country'', py_opt VStr (country (vendor self))),
        (''customer_name'', py_opt VStr (name (customer self))),
        (''customer_email'', py_opt VStr (email (customer self))),
        (''customer_phone'', py_opt VStr (phone (customer self))),
        (''customer_address'', py_opt VStr (address (customer self))),
        (''customer_city'', py_opt VStr (city (customer self))),
        (''customer_state'', py_opt VStr (state (customer self))),
        (''customer_postal_code'', py_opt VStr (postal_code (customer self))),
        (''customer_country'', py_opt VStr (country (customer self))),
        (''subtotal'', float_or_none (subtotal self)),
        (''tax_rate'', py_opt VFloat (tax_rate (tax_info self))),
        (''tax_amount'', float_or_none (tax_amount (tax_info self))),
        (''tax_type'', py_opt VStr (tax_type (tax_info self))),
        (''total_amount'', float_or_none (total_amount self)),
        (''currency'', py_opt VStr (currency self)),
        (''payment_method'', py_opt VStr (payment_method (payment_info self))),
        (''payment_terms'', py_opt VStr (payment_terms (payment_info self))),
        (''due_date'', py_opt VDate (due_date (payment_info self))),
        (''paid_amount'', float_or_none (paid_amount (payment_info self))),
        (''balance_due'', float_or_none (balance_due (payment_info self))),
        (''notes'', py_opt VStr (notes_field self)),
        (''source_filename'', py_opt VStr (source_filename self)),
        (''processed_at'', py_opt VDateTime (processed_at self)),
        (''confidence_score'', py_opt VFloat (confidence_score self))]"

text \<open>The argument of \<open>flat_dict.update\<close>: the branch on \<open>if self.line_items\<close>.\<close>

definition first_item_fields :: "StructuredDocument \<Rightarrow> (string \<times> pyval) list" where
  "first_item_fields self =
       (case line_items self of
          first_item # rest \<Rightarrow>
            [(''item_name'', py_opt VStr (item_name first_item)),
             (''quantity'', py_opt num_val (quantity first_item)),
             (''unit_price'', float_or_none (unit_price first_item)),
             (''item_total_price'', float_or_none (total_price first_item)),
             (''item_code'', py_opt VStr (item_code first_item)),
             (''item_category'', py_opt VStr (category first_item)),
             (''total_line_items'', VInt (int (length (line_items self))))]
        | [] \<Rightarrow>
            [(''item_name'', VNone),
             (''quantity'', VNone),
             (''unit_price'', VNone),
             (''item_total_price'', VNone),
             (''item_code'', VNone),
             (''item_category'', VNone),
             (''total_line_items'', VInt 0)])"

definition to_flat_dict :: "StructuredDocument \<Rightarrow> row" where
  "to_flat_dict self = dict_update (flat_dict_literal self) (first_item_fields self)"

text \<open>The body of the loop of \<open>to_line_items_list\<close> for the item at index \<open>i\<close>.\<close>

definition item_fields :: "nat \<Rightarrow> LineItem \<Rightarrow> (string \<times> pyval) list" where
  "item_fields i item =
       [(''item_name'', py_opt VStr (item_name item)),
        (''quantity'', py_opt num_val (quantity item)),
        (''unit_price'', float_or_none (unit_price item)),
        (''item_total_price'', float_or_none (total_price item)),
        (''item_code'', py_opt VStr (item_code item)),
        (''item_category'', py_opt VStr (category item)),
        (''line_item_number'', VInt (int i + 1))]"

definition item_dict :: "row \<Rightarrow> nat \<Rightarrow> LineItem \<Rightarrow> row" where
  "item_dict base_dict i item = dict_update base_dict (item_fields i item)"

text \<open>\<open>for i, item in enumerate(self.line_items)\<close>, started at index \<open>i\<close>.\<close>

fun item_rows :: "row \<Rightarrow> nat \<Rightarrow> LineItem list \<Rightarrow> row list" where
  "item_rows base_dict i [] = []"
| "item_rows base_dict i (item # items) =
     item_dict base_dict i item # item_rows base_dict (Suc i) items"

definition to_line_items_list :: "StructuredDocument \<Rightarrow> row list" where
  "to_line_items_list self =
     (if line_items self = [] then [to_flat_dict self]
      else item_rows (to_flat_dict self) 0 (line_items self))"

subsection \<open>Column names\<close>

definition document_keys :: "string list" where
  "document_keys =
     [''document_type'', ''document_number'', ''document_date'', ''reference_number'',
      ''vendor_name'', ''vendor_email'', ''vendor_phone'', ''vendor_address'', ''vendor_city'',
      ''vendor_state'', ''vendor_postal_code'', ''vendor_country'',
      ''customer_name'', ''customer_email'', ''customer_phone'', ''customer_address'',
      ''customer_city'', ''customer_state'', ''customer_postal_code'', ''customer_country'',
      ''subtotal'', ''tax_rate'', ''tax_amount'', ''tax_type'', ''total_amount'', ''currency'',
      ''payment_method'', ''payment_terms'', ''due_date'', ''paid_amount'', ''balance_due'',
      ''notes'', ''source_filename'', ''processed_at'', ''confidence_score'']"

definition item_keys :: "string list" where
  "item_keys = [''item_name'', ''quantity'', ''unit_price'', ''item_total_price'',
                ''item_code'', ''item_category'']"

text \<open>The keys of \<open>to_flat_dict()\<close>, in the order of the columns.\<close>

definition flat_keys :: "string list" where
  "flat_keys = document_keys @ item_keys @ [''total_line_items'']"

subsection \<open>Example documents\<close>

definition no_contact :: ContactInfo where
  "no_contact = \<lparr>name = None, email = None, phone = None, address = None, city = None,
                  state = None, postal_code = None, country = None\<rparr>"

definition dec_zero :: Decimal where
  "dec_zero = \<lparr>dec_neg = False, dec_coeff = 0, dec_exp = - 2\<rparr>"

definition dec_five :: Decimal where
  "dec_five = \<lparr>dec_neg = False, dec_coeff = 500, dec_exp = - 2\<rparr>"

definition item_a :: LineItem where
  "item_a = \<lparr>item_name = Some ''Widget'', quantity = Some (NInt 0), unit_price = Some dec_five,
              total_price = Some dec_zero, item_code = Some ''W-1'', category = None\<rparr>"

definition item_b :: LineItem where
  "item_b = \<lparr>item_name = Some ''Sample'', quantity = Some (NInt 2), unit_price = Some dec_zero,
              total_price = Some dec_zero, item_code = None, category = Some ''free''\<rparr>"

text \<open>A document with no line items and a zero subtotal.\<close>

definition doc_no_items :: StructuredDocument where
  "doc_no_items =
     \<lparr>document_info = \<lparr>document_type = Some ''receipt'', document_number = None,
                        document_date = None, reference_number = None\<rparr>,
      vendor = no_contact, customer = no_contact, line_items = [],
      subtotal = Some dec_zero,
      tax_info = \<lparr>tax_rate = None, tax_amount = Some dec_zero, tax_type = None\<rparr>,
      total_amount = Some dec_zero,
      payment_info = \<lparr>payment_method = None, payment_terms = None, due_date = None,
                       paid_amount = Some dec_zero, balance_due = Some dec_zero\<rparr>,
      notes_field = None, currency = Some ''USD'', source_filename = Some ''a.png'',
      processed_at = None, confidence_score = None\<rparr>"

text \<open>The same document with two line items.\<close>

definition doc_two_items :: StructuredDocument where
  "doc_two_items = doc_no_items\<lparr>line_items := [item_a, item_b]\<rparr>"

section \<open>Properties of the dictionaries\<close>

lemma update_absent: "k \<notin> fst ` set d \<Longrightarrow> AList.update k v d = d @ [(k, v)]"
  by (induction d) auto

lemma dict_update_fresh:
  "distinct (map fst kvs) \<Longrightarrow> fst ` set kvs \<inter> fst ` set d = {} \<Longrightarrow> dict_update d kvs = d @ kvs"
proof (induction kvs arbitrary: d)
  case Nil
  then show ?case by simp
next
  case (Cons kv kvs)
  obtain k v where kv: "kv = (k, v)" by (cases kv)
  from Cons.prems have k: "k \<notin> fst ` set d" and dk: "distinct (map fst kvs)"
    and kk: "k \<notin> fst ` set kvs" and dj: "fst ` set kvs \<inter> fst ` set d = {}"
    by (auto simp: kv)
  have "dict_update (d @ [(k, v)]) kvs = (d @ [(k, v)]) @ kvs"
    using dk kk dj by (intro Cons.IH) auto
  then show ?case by (simp add: kv update_absent [OF k])
qed

lemma dict_update_append: "dict_update d (xs @ ys) = dict_update (dict_update d xs) ys"
  by (induction xs arbitrary: d) auto

lemma keys_dict_update_present:
  "fst ` set kvs \<subseteq> fst ` set d \<Longrightarrow> map fst (dict_update d kvs) = map fst d"
proof (induction kvs arbitrary: d)
  case Nil
  then show ?case by simp
next
  case (Cons kv kvs)
  obtain k v where kv: "kv = (k, v)" by (cases kv)
  from Cons.prems have k: "k \<in> fst ` set d" and r: "fst ` set kvs \<subseteq> fst ` set d"
    by (auto simp: kv)
  have keys: "map fst (AList.update k v d) = map fst d"
    using k by (simp add: update_keys)
  then have "fst ` set (AList.update k v d) = fst ` set d"
    by (metis list.set_map)
  with r have "map fst (dict_update (AList.update k v d) kvs) = map fst (AList.update k v d)"
    by (intro Cons.IH) simp
  with keys show ?case by (simp add: kv)
qed

lemma map_of_dict_update:
  "map_of (dict_update d kvs) k =
     (case map_of (rev kvs) k of Some v \<Rightarrow> Some v | None \<Rightarrow> map_of d k)"
proof (induction kvs arbitrary: d)
  case Nil
  then show ?case by simp
next
  case (Cons kv kvs)
  obtain k' v where kv: "kv = (k', v)" by (cases kv)
  show ?case
    by (simp add: kv Cons.IH update_conv' map_add_def split: option.split)
qed

lemma map_of_dict_update_other:
  "k \<notin> fst ` set kvs \<Longrightarrow> map_of (dict_update d kvs) k = map_of d k"
proof -
  assume "k \<notin> fst ` set kvs"
  then have "map_of (rev kvs) k = None"
    by (simp add: map_of_eq_None_iff)
  then show ?thesis by (simp add: map_of_dict_update)
qed

lemma keys_flat_dict_literal: "map fst (flat_dict_literal d) = document_keys"
  by (simp add: flat_dict_literal_def document_keys_def)

lemma keys_first_item_fields: "map fst (first_item_fields d) = item_keys @ [''total_line_items'']"
  by (simp add: first_item_fields_def item_keys_def split: list.split)

lemma keys_item_fields: "map fst (item_fields i it) = item_keys @ [''line_item_number'']"
  by (simp add: item_fields_def item_keys_def)

lemma distinct_flat_keys: "distinct (flat_keys @ [''line_item_number''])"
  by (simp add: flat_keys_def document_keys_def item_keys_def)

lemma to_flat_dict_append: "to_flat_dict d = flat_dict_literal d @ first_item_fields d"
  unfolding to_flat_dict_def
proof (rule dict_update_fresh)
  show "distinct (map fst (first_item_fields d))"
    by (simp add: keys_first_item_fields item_keys_def)
  have "set (map fst (first_item_fields d)) \<inter> set (map fst (flat_dict_literal d)) = {}"
    unfolding keys_first_item_fields keys_flat_dict_literal
    by (simp add: item_keys_def document_keys_def)
  then show "fst ` set (first_item_fields d) \<inter> fst ` set (flat_dict_literal d) = {}"
    by simp
qed

lemma keys_to_flat_dict: "map fst (to_flat_dict d) = flat_keys"
  by (simp add: to_flat_dict_append keys_flat_dict_literal keys_first_item_fields flat_keys_def)

lemma keys_item_dict:
  assumes "map fst b = flat_keys"
  shows "map fst (item_dict b i it) = flat_keys @ [''line_item_number'']"
proof -
  let ?six = "butlast (item_fields i it)"
  let ?n = "(''line_item_number'', VInt (int i + 1))"
  have split: "item_fields i it = ?six @ [?n]"
    by (simp add: item_fields_def)
  have six_keys: "map fst ?six = item_keys"
    by (simp add: item_fields_def item_keys_def)
  have "set (map fst ?six) \<subseteq> set (map fst b)"
    unfolding six_keys assms by (auto simp: flat_keys_def)
  then have "fst ` set ?six \<subseteq> fst ` set b" by simp
  then have k1: "map fst (dict_update b ?six) = flat_keys"
    using assms by (simp add: keys_dict_update_present)
  have "''line_item_number'' \<notin> set (map fst (dict_update b ?six))"
    unfolding k1 using distinct_flat_keys by simp
  then have "''line_item_number'' \<notin> fst ` set (dict_update b ?six)" by simp
  then have "AList.update ''line_item_number'' (VInt (int i + 1)) (dict_update b ?six)
      = dict_update b ?six @ [?n]"
    by (rule update_absent)
  moreover have "item_dict b i it = dict_update (dict_update b ?six) [?n]"
    unfolding item_dict_def by (subst split) (rule dict_update_append)
  ultimately show ?thesis by (simp add: k1)
qed

lemma length_item_rows: "length (item_rows b i items) = length items"
  by (induction items arbitrary: i) auto

lemma nth_item_rows:
  "n < length items \<Longrightarrow> item_rows b i items ! n = item_dict b (i + n) (items ! n)"
proof (induction items arbitrary: i n)
  case Nil
  then show ?case by simp
next
  case (Cons it items)
  then show ?case by (cases n) auto
qed


lemma map_of_rev_distinct_keys: "distinct (map fst xs) \<Longrightarrow> map_of (rev xs) = map_of xs"
proof (induction xs)
  case Nil
  then show ?case by simp
next
  case (Cons kv xs)
  obtain k v where kv: "kv = (k, v)" by (cases kv)
  from Cons.prems have fresh: "map_of xs k = None" and dist: "distinct (map fst xs)"
    by (auto simp: kv map_of_eq_None_iff)
  have "map_of (rev xs) = map_of xs" using dist by (rule Cons.IH)
  then have "map_of (rev (kv # xs)) = [k \<mapsto> v] ++ map_of xs"
    by (simp add: kv)
  also have "\<dots> = (map_of xs)(k \<mapsto> v)"
    using fresh by (auto simp: map_add_def fun_eq_iff split: option.split)
  finally show ?case by (simp add: kv)
qed

lemma map_of_item_fields:
  "map_of (item_fields i it) ''item_name'' = Some (py_opt VStr (item_name it))"
  "map_of (item_fields i it) ''quantity'' = Some (py_opt num_val (quantity it))"
  "map_of (item_fields i it) ''unit_price'' = Some (float_or_none (unit_price it))"
  "map_of (item_fields i it) ''item_total_price'' = Some (float_or_none (total_price it))"
  "map_of (item_fields i it) ''item_code'' = Some (py_opt VStr (item_code it))"
  "map_of (item_fields i it) ''item_category'' = Some (py_opt VStr (category it))"
  "map_of (item_fields i it) ''line_item_number'' = Some (VInt (int i + 1))"
  by (simp_all add: item_fields_def)

lemma map_of_item_dict:
  "map_of (item_dict b i it) k =
     (case map_of (item_fields i it) k of Some v \<Rightarrow> Some v | None \<Rightarrow> map_of b k)"
proof -
  have "distinct (map fst (item_fields i it))"
    unfolding keys_item_fields by (simp add: item_keys_def)
  then have "map_of (rev (item_fields i it)) = map_of (item_fields i it)"
    by (rule map_of_rev_distinct_keys)
  then show ?thesis
    by (simp add: item_dict_def map_of_dict_update)
qed

lemma map_of_item_dict_item:
  "map_of (item_dict b i it) ''item_name'' = Some (py_opt VStr (item_name it))"
  "map_of (item_dict b i it) ''quantity'' = Some (py_opt num_val (quantity it))"
  "map_of (item_dict b i it) ''unit_price'' = Some (float_or_none (unit_price it))"
  "map_of (item_dict b i it) ''item_total_price'' = Some (float_or_none (total_price it))"
  "map_of (item_dict b i it) ''item_code'' = Some (py_opt VStr (item_code it))"
  "map_of (item_dict b i it) ''item_category'' = Some (py_opt VStr (category it))"
  "map_of (item_dict b i it) ''line_item_number'' = Some (VInt (int i + 1))"
  by (simp_all only: map_of_item_dict map_of_item_fields option.case)

lemma map_of_item_dict_other:
  "k \<notin> set item_keys \<Longrightarrow> k \<noteq> ''line_item_number'' \<Longrightarrow>
   map_of (item_dict b i it) k = map_of b k"
proof -
  assume a: "k \<notin> set item_keys" "k \<noteq> ''line_item_number''"
  have "k \<notin> set (map fst (item_fields i it))"
    unfolding keys_item_fields using a by simp
  then have "k \<notin> fst ` set (item_fields i it)" by simp
  then show ?thesis
    unfolding item_dict_def by (rule map_of_dict_update_other)
qed

lemma map_of_to_flat_dict:
  "map_of (to_flat_dict d) k =
     (case map_of (first_item_fields d) k of Some v \<Rightarrow> Some v
      | None \<Rightarrow> map_of (flat_dict_literal d) k)"
proof -
  have "distinct (map fst (first_item_fields d))"
    unfolding keys_first_item_fields by (simp add: item_keys_def)
  then have "map_of (rev (first_item_fields d)) = map_of (first_item_fields d)"
    by (rule map_of_rev_distinct_keys)
  then show ?thesis
    by (simp add: to_flat_dict_def map_of_dict_update)
qed

lemma map_of_first_item_fields:
  "map_of (first_item_fields d) ''item_name'' =
     Some (case line_items d of [] \<Rightarrow> VNone | it # r \<Rightarrow> py_opt VStr (item_name it))"
  "map_of (first_item_fields d) ''quantity'' =
     Some (case line_items d of [] \<Rightarrow> VNone | it # r \<Rightarrow> py_opt num_val (quantity it))"
  "map_of (first_item_fields d) ''unit_price'' =
     Some (case line_items d of [] \<Rightarrow> VNone | it # r \<Rightarrow> float_or_none (unit_price it))"
  "map_of (first_item_fields d) ''item_total_price'' =
     Some (case line_items d of [] \<Rightarrow> VNone | it # r \<Rightarrow> float_or_none (total_price it))"
  "map_of (first_item_fields d) ''item_code'' =
     Some (case line_items d of [] \<Rightarrow> VNone | it # r \<Rightarrow> py_opt VStr (item_code it))"
  "map_of (first_item_fields d) ''item_category'' =
     Some (case line_items d of [] \<Rightarrow> VNone | it # r \<Rightarrow> py_opt VStr (category it))"
  "map_of (first_item_fields d) ''total_line_items'' = Some (VInt (int (length (line_items d))))"
  by (cases "line_items d"; simp add: first_item_fields_def)+

lemma map_of_flat_first_item:
  "map_of (to_flat_dict d) ''item_name'' =
     Some (case line_items d of [] \<Rightarrow> VNone | it # r \<Rightarrow> py_opt VStr (item_name it))"
  "map_of (to_flat_dict d) ''quantity'' =
     Some (case line_items d of [] \<Rightarrow> VNone | it # r \<Rightarrow> py_opt num_val (quantity it))"
  "map_of (to_flat_dict d) ''unit_price'' =
     Some (case line_items d of [] \<Rightarrow> VNone | it # r \<Rightarrow> float_or_none (unit_price it))"
  "map_of (to_flat_dict d) ''item_total_price'' =
     Some (case line_items d of [] \<Rightarrow> VNone | it # r \<Rightarrow> float_or_none (total_price it))"
  "map_of (to_flat_dict d) ''item_code'' =
     Some (case line_items d of [] \<Rightarrow> VNone | it # r \<Rightarrow> py_opt VStr (item_code it))"
  "map_of (to_flat_dict d) ''item_category'' =
     Some (case line_items d of [] \<Rightarrow> VNone | it # r \<Rightarrow> py_opt VStr (category it))"
  "map_of (to_flat_dict d) ''total_line_items'' = Some (VInt (int (length (line_items d))))"
  by (simp_all only: map_of_to_flat_dict map_of_first_item_fields option.case)

lemma map_of_first_item_fields_other:
  "k \<notin> set item_keys \<Longrightarrow> k \<noteq> ''total_line_items'' \<Longrightarrow> map_of (first_item_fields d) k = None"
proof -
  assume "k \<notin> set item_keys" "k \<noteq> ''total_line_items''"
  then have "k \<notin> set (map fst (first_item_fields d))"
    unfolding keys_first_item_fields by simp
  then show ?thesis by (simp add: map_of_eq_None_iff)
qed

lemma map_of_flat_literal:
  "k \<notin> set item_keys \<Longrightarrow> k \<noteq> ''total_line_items'' \<Longrightarrow>
   map_of (to_flat_dict d) k = map_of (flat_dict_literal d) k"
  by (simp add: map_of_to_flat_dict map_of_first_item_fields_other)

lemma map_of_literal_amounts:
  "map_of (flat_dict_literal d) ''subtotal'' = Some (float_or_none (subtotal d))"
  "map_of (flat_dict_literal d) ''tax_amount'' = Some (float_or_none (tax_amount (tax_info d)))"
  "map_of (flat_dict_literal d) ''total_amount'' = Some (float_or_none (total_amount d))"
  "map_of (flat_dict_literal d) ''paid_amount'' =
     Some (float_or_none (paid_amount (payment_info d)))"
  "map_of (flat_dict_literal d) ''balance_due'' =
     Some (float_or_none (balance_due (payment_info d)))"
  by (simp_all add: flat_dict_literal_def)

lemma map_of_flat_amounts:
  "map_of (to_flat_dict d) ''subtotal'' = Some (float_or_none (subtotal d))"
  "map_of (to_flat_dict d) ''tax_amount'' = Some (float_or_none (tax_amount (tax_info d)))"
  "map_of (to_flat_dict d) ''total_amount'' = Some (float_or_none (total_amount d))"
  "map_of (to_flat_dict d) ''paid_amount'' = Some (float_or_none (paid_amount (payment_info d)))"
  "map_of (to_flat_dict d) ''balance_due'' = Some (float_or_none (balance_due (payment_info d)))"
  by (simp_all add: map_of_flat_literal item_keys_def map_of_literal_amounts)

lemma dec_value_zero_iff: "dec_value z = 0 \<longleftrightarrow> dec_coeff z = 0"
  by (simp add: dec_value_def)

lemma float_or_none_zero: "dec_value z = 0 \<Longrightarrow> float_or_none (Some z) = VNone"
  by (simp add: float_or_none_def dec_truthy_def dec_value_zero_iff)

lemma nth_to_line_items_list:
  "i < length (line_items d) \<Longrightarrow>
   to_line_items_list d ! i = item_dict (to_flat_dict d) i (line_items d ! i)"
  by (auto simp: to_line_items_list_def nth_item_rows)

lemma map_of_literal_document_fields:
  "map_of (flat_dict_literal d) ''document_type''
     = Some (case document_type (document_info d) of None \<Rightarrow> VNone | Some s \<Rightarrow> VStr s)"
  "map_of (flat_dict_literal d) ''document_number''
     = Some (case document_number (document_info d) of None \<Rightarrow> VNone | Some s \<Rightarrow> VStr s)"
  "map_of (flat_dict_literal d) ''vendor_name''
     = Some (case name (vendor d) of None \<Rightarrow> VNone | Some s \<Rightarrow> VStr s)"
  "map_of (flat_dict_literal d) ''vendor_email''
     = Some (case email (vendor d) of None \<Rightarrow> VNone | Some s \<Rightarrow> VStr s)"
  "map_of (flat_dict_literal d) ''vendor_phone''
     = Some (case phone (vendor d) of None \<Rightarrow> VNone | Some s \<Rightarrow> VStr s)"
  "map_of (flat_dict_literal d) ''customer_name''
     = Some (case name (customer d) of None \<Rightarrow> VNone | Some s \<Rightarrow> VStr s)"
  "map_of (flat_dict_literal d) ''customer_email''
     = Some (case email (customer d) of None \<Rightarrow> VNone | Some s \<Rightarrow> VStr s)"
  "map_of (flat_dict_literal d) ''customer_phone''
     = Some (case phone (customer d) of None \<Rightarrow> VNone | Some s \<Rightarrow> VStr s)"
  "map_of (flat_dict_literal d) ''subtotal''
     = Some (case subtotal d of None \<Rightarrow> VNone
             | Some z \<Rightarrow> if dec_value z = 0 then VNone else VFloat (Float_of z))"
  "map_of (flat_dict_literal d) ''tax_amount''
     = Some (case tax_amount (tax_info d) of None \<Rightarrow> VNone
             | Some z \<Rightarrow> if dec_value z = 0 then VNone else VFloat (Float_of z))"
  "map_of (flat_dict_literal d) ''total_amount''
     = Some (case total_amount d of None \<Rightarrow> VNone
             | Some z \<Rightarrow> if dec_value z = 0 then VNone else VFloat (Float_of z))"
  "map_of (flat_dict_literal d) ''currency''
     = Some (case currency d of None \<Rightarrow> VNone | Some s \<Rightarrow> VStr s)"
  by (simp_all add: flat_dict_literal_def py_opt_def float_or_none_def dec_truthy_def
      dec_value_zero_iff split: option.split)

lemma row_document_key:
  assumes "i < length (line_items d)" and "k \<notin> set item_keys" and "k \<noteq> ''line_item_number''"
    and "k \<noteq> ''total_line_items''"
  shows "map_of (to_line_items_list d ! i) k = map_of (flat_dict_literal d) k"
  using assms
  by (simp add: nth_to_line_items_list map_of_item_dict_other map_of_flat_literal)

lemma row_item_values:
  assumes "i < length (line_items d)"
  shows "map_of (to_line_items_list d ! i) ''line_item_number'' = Some (VInt (int i + 1))"
    "map_of (to_line_items_list d ! i) ''item_name''
       = Some (case item_name (line_items d ! i) of None \<Rightarrow> VNone | Some s \<Rightarrow> VStr s)"
    "map_of (to_line_items_list d ! i) ''quantity''
       = Some (case quantity (line_items d ! i) of None \<Rightarrow> VNone
               | Some (NInt n) \<Rightarrow> VInt n | Some (NFloat f) \<Rightarrow> VFloat f)"
    "map_of (to_line_items_list d ! i) ''unit_price''
       = Some (case unit_price (line_items d ! i) of None \<Rightarrow> VNone
               | Some z \<Rightarrow> if dec_value z = 0 then VNone else VFloat (Float_of z))"
    "map_of (to_line_items_list d ! i) ''item_total_price''
       = Some (case total_price (line_items d ! i) of None \<Rightarrow> VNone
               | Some z \<Rightarrow> if dec_value z = 0 then VNone else VFloat (Float_of z))"
    "map_of (to_line_items_list d ! i) ''item_code''
       = Some (case item_code (line_items d ! i) of None \<Rightarrow> VNone | Some s \<Rightarrow> VStr s)"
    "map_of (to_line_items_list d ! i) ''item_category''
       = Some (case category (line_items d ! i) of None \<Rightarrow> VNone | Some s \<Rightarrow> VStr s)"
  using assms
  by (simp_all add: nth_to_line_items_list map_of_item_dict_item py_opt_def float_or_none_def
      dec_truthy_def dec_value_zero_iff num_val_def split: option.split number.split)

lemma row_keys:
  "i < length (line_items d) \<Longrightarrow>
   map fst (to_line_items_list d ! i) = flat_keys @ [''line_item_number'']"
  by (simp add: nth_to_line_items_list keys_item_dict keys_to_flat_dict)

lemma row_total_line_items:
  "i < length (line_items d) \<Longrightarrow>
   map_of (to_line_items_list d ! i) ''total_line_items'' = Some (VInt (int (length (line_items d))))"
  by (simp add: nth_to_line_items_list map_of_item_dict_other item_keys_def
      map_of_flat_first_item)

section \<open>The per-item projection\<close>

text \<open>
  Claim C8. When the document has no line items, \<open>to_line_items_list()\<close> is the single
  row \<open>to_flat_dict()\<close>; in that row the six item fields are \<open>None\<close> and
  \<open>total_line_items\<close> is 0.
\<close>

theorem to_line_items_list_no_items:
  assumes "line_items d = []"
  shows "to_line_items_list d = [to_flat_dict d]
       \<and> map_of (to_flat_dict d) ''item_name'' = Some VNone
       \<and> map_of (to_flat_dict d) ''quantity'' = Some VNone
       \<and> map_of (to_flat_dict d) ''unit_price'' = Some VNone
       \<and> map_of (to_flat_dict d) ''item_total_price'' = Some VNone
       \<and> map_of (to_flat_dict d) ''item_code'' = Some VNone
       \<and> map_of (to_flat_dict d) ''item_category'' = Some VNone
       \<and> map_of (to_flat_dict d) ''total_line_items'' = Some (VInt 0)"
  using assms by (simp add: to_line_items_list_def map_of_flat_first_item)

text \<open>The document \<open>doc_no_items\<close> has no line items: its only row is its flat
  row.\<close>

theorem to_line_items_list_no_items_witness:
  "line_items doc_no_items = []
   \<and> to_line_items_list doc_no_items = [to_flat_dict doc_no_items]
   \<and> length (to_line_items_list doc_no_items) = 1
   \<and> map_of (hd (to_line_items_list doc_no_items)) ''unit_price'' = Some VNone
   \<and> map_of (hd (to_line_items_list doc_no_items)) ''total_line_items'' = Some (VInt 0)
   \<and> map_of (hd (to_line_items_list doc_no_items)) ''document_type'' = Some (VStr ''receipt'')"
proof -
  have e: "line_items doc_no_items = []" by (simp add: doc_no_items_def)
  have "map_of (to_flat_dict doc_no_items) ''document_type'' = Some (VStr ''receipt'')"
    by (simp add: map_of_flat_literal item_keys_def flat_dict_literal_def doc_no_items_def
        py_opt_def)
  with e to_line_items_list_no_items [OF e] show ?thesis by simp
qed

text \<open>
  Claim C7. A document with \<open>N \<ge> 1\<close> line items has exactly \<open>N\<close> rows. Row \<open>i\<close>
  (counted from 0 here) has the columns of \<open>to_flat_dict()\<close> followed by
  \<open>line_item_number\<close>, which is \<open>i + 1\<close>. Its six item fields are those of the item at
  that position: a text or an absent value as it is, an integer or float quantity as it
  is, a non-zero price as its float and a zero or absent price as \<open>None\<close>. The document,
  vendor and customer fields, the totals, the currency and \<open>total_line_items\<close> are those
  of the document; under every key other than the item fields and \<open>line_item_number\<close> the
  row holds the value of \<open>to_flat_dict()\<close>, so any two rows agree there.
\<close>

theorem to_line_items_list_rows:
  assumes "line_items d \<noteq> []"
  shows "length (to_line_items_list d) = length (line_items d)
    \<and> (\<forall>i < length (line_items d).
         map fst (to_line_items_list d ! i) = flat_keys @ [''line_item_number'']
       \<and> map_of (to_line_items_list d ! i) ''line_item_number'' = Some (VInt (int i + 1))
       \<and> map_of (to_line_items_list d ! i) ''item_name''
           = Some (case item_name (line_items d ! i) of None \<Rightarrow> VNone | Some s \<Rightarrow> VStr s)
       \<and> map_of (to_line_items_list d ! i) ''quantity''
           = Some (case quantity (line_items d ! i) of None \<Rightarrow> VNone
                   | Some (NInt n) \<Rightarrow> VInt n | Some (NFloat f) \<Rightarrow> VFloat f)
       \<and> map_of (to_line_items_list d ! i) ''unit_price''
           = Some (case unit_price (line_items d ! i) of None \<Rightarrow> VNone
                   | Some z \<Rightarrow> if dec_value z = 0 then VNone else VFloat (Float_of z))
       \<and> map_of (to_line_items_list d ! i) ''item_total_price''
           = Some (case total_price (line_items d ! i) of None \<Rightarrow> VNone
                   | Some z \<Rightarrow> if dec_value z = 0 then VNone else VFloat (Float_of z))
       \<and> map_of (to_line_items_list d ! i) ''item_code''
           = Some (case item_code (line_items d ! i) of None \<Rightarrow> VNone | Some s \<Rightarrow> VStr s)
       \<and> map_of (to_line_items_list d ! i) ''item_category''
           = Some (case category (line_items d ! i) of None \<Rightarrow> VNone | Some s \<Rightarrow> VStr s)
       \<and> map_of (to_line_items_list d ! i) ''document_type''
           = Some (case document_type (document_info d) of None \<Rightarrow> VNone | Some s \<Rightarrow> VStr s)
       \<and> map_of (to_line_items_list d ! i) ''document_number''
           = Some (case document_number (document_info d) of None \<Rightarrow> VNone
                   | Some s \<Rightarrow> VStr s)
       \<and> map_of (to_line_items_list d ! i) ''vendor_name''
           = Some (case name (vendor d) of None \<Rightarrow> VNone | Some s \<Rightarrow> VStr s)
       \<and> map_of (to_line_items_list d ! i) ''vendor_email''
           = Some (case email (vendor d) of None \<Rightarrow> VNone | Some s \<Rightarrow> VStr s)
       \<and> map_of (to_line_items_list d ! i) ''vendor_phone''
           = Some (case phone (vendor d) of None \<Rightarrow> VNone | Some s \<Rightarrow> VStr s)
       \<and> map_of (to_line_items_list d ! i) ''customer_name''
           = Some (case name (customer d) of None \<Rightarrow> VNone | Some s \<Rightarrow> VStr s)
       \<and> map_of (to_line_items_list d ! i) ''customer_email''
           = Some (case email (customer d) of None \<Rightarrow> VNone | Some s \<Rightarrow> VStr s)
       \<and> map_of (to_line_items_list d ! i) ''customer_phone''
           = Some (case phone (customer d) of None \<Rightarrow> VNone | Some s \<Rightarrow> VStr s)
       \<and> map_of (to_line_items_list d ! i) ''subtotal''
           = Some (case subtotal d of None \<Rightarrow> VNone
                   | Some z \<Rightarrow> if dec_value z = 0 then VNone else VFloat (Float_of z))
       \<and> map_of (to_line_items_list d ! i) ''tax_amount''
           = Some (case tax_amount (tax_info d) of None \<Rightarrow> VNone
                   | Some z \<Rightarrow> if dec_value z = 0 then VNone else VFloat (Float_of z))
       \<and> map_of (to_line_items_list d ! i) ''total_amount''
           = Some (case total_amount d of None \<Rightarrow> VNone
                   | Some z \<Rightarrow> if dec_value z = 0 then VNone else VFloat (Float_of z))
       \<and> map_of (to_line_items_list d ! i) ''currency''
           = Some (case currency d of None \<Rightarrow> VNone | Some s \<Rightarrow> VStr s)
       \<and> map_of (to_line_items_list d ! i) ''total_line_items''
           = Some (VInt (int (length (line_items d))))
       \<and> (\<forall>k. k \<notin> set item_keys \<and> k \<noteq> ''line_item_number'' \<longrightarrow>
             map_of (to_line_items_list d ! i) k = map_of (to_flat_dict d) k
           \<and> (\<forall>j < length (line_items d).
                 map_of (to_line_items_list d ! i) k = map_of (to_line_items_list d ! j) k)))"
proof -
  have len: "length (to_line_items_list d) = length (line_items d)"
    using assms by (simp add: to_line_items_list_def length_item_rows)
  have fields: "map fst (to_line_items_list d ! i) = flat_keys @ [''line_item_number'']
       \<and> map_of (to_line_items_list d ! i) ''line_item_number'' = Some (VInt (int i + 1))
       \<and> map_of (to_line_items_list d ! i) ''item_name''
           = Some (case item_name (line_items d ! i) of None \<Rightarrow> VNone | Some s \<Rightarrow> VStr s)
       \<and> map_of (to_line_items_list d ! i) ''quantity''
           = Some (case quantity (line_items d ! i) of None \<Rightarrow> VNone
                   | Some (NInt n) \<Rightarrow> VInt n | Some (NFloat f) \<Rightarrow> VFloat f)
       \<and> map_of (to_line_items_list d ! i) ''unit_price''
           = Some (case unit_price (line_items d ! i) of None \<Rightarrow> VNone
                   | Some z \<Rightarrow> if dec_value z = 0 then VNone else VFloat (Float_of z))
       \<and> map_of (to_line_items_list d ! i) ''item_total_price''
           = Some (case total_price (line_items d ! i) of None \<Rightarrow> VNone
                   | Some z \<Rightarrow> if dec_value z = 0 then VNone else VFloat (Float_of z))
       \<and> map_of (to_line_items_list d ! i) ''item_code''
           = Some (case item_code (line_items d ! i) of None \<Rightarrow> VNone | Some s \<Rightarrow> VStr s)
       \<and> map_of (to_line_items_list d ! i) ''item_category''
           = Some (case category (line_items d ! i) of None \<Rightarrow> VNone | Some s \<Rightarrow> VStr s)"
    if "i < length (line_items d)" for i
    by (simp only: row_keys [OF that] row_item_values [OF that] simp_thms)
  have doc: "map_of (to_line_items_list d ! i) ''document_type''
           = Some (case document_type (document_info d) of None \<Rightarrow> VNone | Some s \<Rightarrow> VStr s)
       \<and> map_of (to_line_items_list d ! i) ''document_number''
           = Some (case document_number (document_info d) of None \<Rightarrow> VNone
                   | Some s \<Rightarrow> VStr s)
       \<and> map_of (to_line_items_list d ! i) ''vendor_name''
           = Some (case name (vendor d) of None \<Rightarrow> VNone | Some s \<Rightarrow> VStr s)
       \<and> map_of (to_line_items_list d ! i) ''vendor_email''
           = Some (case email (vendor d) of None \<Rightarrow> VNone | Some s \<Rightarrow> VStr s)
       \<and> map_of (to_line_items_list d ! i) ''vendor_phone''
           = Some (case phone (vendor d) of None \<Rightarrow> VNone | Some s \<Rightarrow> VStr s)
       \<and> map_of (to_line_items_list d ! i) ''customer_name''
           = Some (case name (customer d) of None \<Rightarrow> VNone | Some s \<Rightarrow> VStr s)
       \<and> map_of (to_line_items_list d ! i) ''customer_email''
           = Some (case email (customer d) of None \<Rightarrow> VNone | Some s \<Rightarrow> VStr s)
       \<and> map_of (to_line_items_list d ! i) ''customer_phone''
           = Some (case phone (customer d) of None \<Rightarrow> VNone | Some s \<Rightarrow> VStr s)
       \<and> map_of (to_line_items_list d ! i) ''subtotal''
           = Some (case subtotal d of None \<Rightarrow> VNone
                   | Some z \<Rightarrow> if dec_value z = 0 then VNone else VFloat (Float_of z))
       \<and> map_of (to_line_items_list d ! i) ''tax_amount''
           = Some (case tax_amount (tax_info d) of None \<Rightarrow> VNone
                   | Some z \<Rightarrow> if dec_value z = 0 then VNone else VFloat (Float_of z))
       \<and> map_of (to_line_items_list d ! i) ''total_amount''
           = Some (case total_amount d of None \<Rightarrow> VNone
                   | Some z \<Rightarrow> if dec_value z = 0 then VNone else VFloat (Float_of z))
       \<and> map_of (to_line_items_list d ! i) ''currency''
           = Some (case currency d of None \<Rightarrow> VNone | Some s \<Rightarrow> VStr s)
       \<and> map_of (to_line_items_list d ! i) ''total_line_items''
           = Some (VInt (int (length (line_items d))))"
    if "i < length (line_items d)" for i
    by (simp add: row_document_key [OF that] item_keys_def map_of_literal_document_fields
        row_total_line_items [OF that])
  have agree: "map_of (to_line_items_list d ! i) k = map_of (to_flat_dict d) k
           \<and> (\<forall>j < length (line_items d).
                 map_of (to_line_items_list d ! i) k = map_of (to_line_items_list d ! j) k)"
    if "i < length (line_items d)" and "k \<notin> set item_keys" and "k \<noteq> ''line_item_number''"
    for i k
    using that by (simp add: nth_to_line_items_list map_of_item_dict_other)
  show ?thesis
    using len fields doc agree by (intro conjI allI impI) (simp_all only: simp_thms)
qed

text \<open>The two rows of \<open>doc_two_items\<close>: item fields, prices and quantities of each
  item, and the shared document fields.\<close>

theorem to_line_items_list_rows_witness:
  "line_items doc_two_items \<noteq> []
   \<and> length (to_line_items_list doc_two_items) = 2
   \<and> map fst (to_line_items_list doc_two_items ! 0) = flat_keys @ [''line_item_number'']
   \<and> map_of (to_line_items_list doc_two_items ! 0) ''line_item_number'' = Some (VInt 1)
   \<and> map_of (to_line_items_list doc_two_items ! 1) ''line_item_number'' = Some (VInt 2)
   \<and> map_of (to_line_items_list doc_two_items ! 0) ''item_name'' = Some (VStr ''Widget'')
   \<and> map_of (to_line_items_list doc_two_items ! 1) ''item_name'' = Some (VStr ''Sample'')
   \<and> map_of (to_line_items_list doc_two_items ! 0) ''quantity'' = Some (VInt 0)
   \<and> map_of (to_line_items_list doc_two_items ! 1) ''quantity'' = Some (VInt 2)
   \<and> map_of (to_line_items_list doc_two_items ! 0) ''unit_price''
       = Some (VFloat (Float_of \<lparr>dec_neg = False, dec_coeff = 500, dec_exp = - 2\<rparr>))
   \<and> map_of (to_line_items_list doc_two_items ! 1) ''unit_price'' = Some VNone
   \<and> map_of (to_line_items_list doc_two_items ! 1) ''item_code'' = Some VNone
   \<and> map_of (to_line_items_list doc_two_items ! 0) ''document_type'' = Some (VStr ''receipt'')
   \<and> map_of (to_line_items_list doc_two_items ! 1) ''document_type'' = Some (VStr ''receipt'')
   \<and> map_of (to_line_items_list doc_two_items ! 0) ''currency'' = Some (VStr ''USD'')
   \<and> map_of (to_line_items_list doc_two_items ! 1) ''currency'' = Some (VStr ''USD'')
   \<and> map_of (to_line_items_list doc_two_items ! 0) ''total_line_items'' = Some (VInt 2)
   \<and> map_of (to_line_items_list doc_two_items ! 1) ''total_line_items'' = Some (VInt 2)"
proof -
  have n: "line_items doc_two_items \<noteq> []" and l: "length (line_items doc_two_items) = 2"
    and i0: "line_items doc_two_items ! 0 = item_a"
    and i1: "line_items doc_two_items ! Suc 0 = item_b"
    and dt: "document_type (document_info doc_two_items) = Some ''receipt''"
    and cu: "currency doc_two_items = Some ''USD''"
    by (simp_all add: doc_two_items_def doc_no_items_def)
  have five: "dec_value dec_five \<noteq> 0" and zero: "dec_value dec_zero = 0"
    by (simp_all add: dec_value_def dec_five_def dec_zero_def)
  have f: "dec_five = \<lparr>dec_neg = False, dec_coeff = 500, dec_exp = - 2\<rparr>"
    by (simp add: dec_five_def)
  note t = to_line_items_list_rows [OF n, unfolded l]
  from t have len: "length (to_line_items_list doc_two_items) = 2" by (rule conjunct1)
  from t have r0: "map fst (to_line_items_list doc_two_items ! 0) = flat_keys @ [''line_item_number'']
     \<and> map_of (to_line_items_list doc_two_items ! 0) ''line_item_number'' = Some (VInt 1)
     \<and> map_of (to_line_items_list doc_two_items ! 0) ''item_name'' = Some (VStr ''Widget'')
     \<and> map_of (to_line_items_list doc_two_items ! 0) ''quantity'' = Some (VInt 0)
     \<and> map_of (to_line_items_list doc_two_items ! 0) ''unit_price'' = Some (VFloat (Float_of dec_five))
     \<and> map_of (to_line_items_list doc_two_items ! 0) ''document_type'' = Some (VStr ''receipt'')
     \<and> map_of (to_line_items_list doc_two_items ! 0) ''currency'' = Some (VStr ''USD'')
     \<and> map_of (to_line_items_list doc_two_items ! 0) ''total_line_items'' = Some (VInt 2)"
    by (simp add: i0 item_a_def five dt cu)
  from t have r1: "map_of (to_line_items_list doc_two_items ! 1) ''line_item_number'' = Some (VInt 2)
     \<and> map_of (to_line_items_list doc_two_items ! 1) ''item_name'' = Some (VStr ''Sample'')
     \<and> map_of (to_line_items_list doc_two_items ! 1) ''quantity'' = Some (VInt 2)
     \<and> map_of (to_line_items_list doc_two_items ! 1) ''unit_price'' = Some VNone
     \<and> map_of (to_line_items_list doc_two_items ! 1) ''item_code'' = Some VNone
     \<and> map_of (to_line_items_list doc_two_items ! 1) ''document_type'' = Some (VStr ''receipt'')
     \<and> map_of (to_line_items_list doc_two_items ! 1) ''currency'' = Some (VStr ''USD'')
     \<and> map_of (to_line_items_list doc_two_items ! 1) ''total_line_items'' = Some (VInt 2)"
    by (simp add: i1 item_b_def zero dt cu)
  from n len r0 r1 show ?thesis unfolding f by simp
qed





section \<open>Zero amounts and zero quantities\<close>

text \<open>
  Claim C6. A Decimal amount that is exactly zero is exported as \<open>None\<close>, not as the
  number 0: \<open>subtotal\<close>, \<open>tax_amount\<close>, \<open>total_amount\<close>, \<open>paid_amount\<close> and
  \<open>balance_due\<close> in \<open>to_flat_dict()\<close>; the prices of the first line item, which are the
  only prices \<open>to_flat_dict()\<close> exports; and the prices of every line item in its own row of
  \<open>to_line_items_list()\<close>.
\<close>

theorem zero_amount_exported_as_none:
  assumes "dec_value z = 0"
  shows "(subtotal d = Some z \<longrightarrow> map_of (to_flat_dict d) ''subtotal'' = Some VNone)
    \<and> (tax_amount (tax_info d) = Some z \<longrightarrow> map_of (to_flat_dict d) ''tax_amount'' = Some VNone)
    \<and> (total_amount d = Some z \<longrightarrow> map_of (to_flat_dict d) ''total_amount'' = Some VNone)
    \<and> (paid_amount (payment_info d) = Some z \<longrightarrow>
          map_of (to_flat_dict d) ''paid_amount'' = Some VNone)
    \<and> (balance_due (payment_info d) = Some z \<longrightarrow>
          map_of (to_flat_dict d) ''balance_due'' = Some VNone)
    \<and> (\<forall>it rest. line_items d = it # rest \<and> unit_price it = Some z \<longrightarrow>
          map_of (to_flat_dict d) ''unit_price'' = Some VNone)
    \<and> (\<forall>it rest. line_items d = it # rest \<and> total_price it = Some z \<longrightarrow>
          map_of (to_flat_dict d) ''item_total_price'' = Some VNone)
    \<and> (\<forall>i < length (line_items d). unit_price (line_items d ! i) = Some z \<longrightarrow>
          map_of (to_line_items_list d ! i) ''unit_price'' = Some VNone)
    \<and> (\<forall>i < length (line_items d). total_price (line_items d ! i) = Some z \<longrightarrow>
          map_of (to_line_items_list d ! i) ''item_total_price'' = Some VNone)"
proof -
  note z = float_or_none_zero [OF assms]
  show ?thesis
    by (simp add: map_of_flat_amounts map_of_flat_first_item nth_to_line_items_list
        map_of_item_dict_item z)
qed

text \<open>Zero amounts of the example documents.\<close>

theorem zero_amount_exported_as_none_witness:
  "dec_value dec_zero = 0
   \<and> map_of (to_flat_dict doc_no_items) ''subtotal'' = Some VNone
   \<and> map_of (to_flat_dict doc_no_items) ''tax_amount'' = Some VNone
   \<and> map_of (to_flat_dict doc_two_items) ''item_total_price'' = Some VNone
   \<and> map_of (to_line_items_list doc_two_items ! 1) ''unit_price'' = Some VNone"
proof -
  have z: "dec_value dec_zero = 0" by (simp add: dec_value_def dec_zero_def)
  have s: "subtotal doc_no_items = Some dec_zero"
    and t: "tax_amount (tax_info doc_no_items) = Some dec_zero"
    by (simp_all add: doc_no_items_def)
  have l: "line_items doc_two_items = item_a # [item_b]"
    and p: "total_price item_a = Some dec_zero"
    and i: "1 < length (line_items doc_two_items)"
    and u: "unit_price (line_items doc_two_items ! 1) = Some dec_zero"
    by (simp_all add: doc_two_items_def item_a_def item_b_def)
  note a = zero_amount_exported_as_none [OF z, of doc_no_items]
  note b = zero_amount_exported_as_none [OF z, of doc_two_items]
  from a s have c1: "map_of (to_flat_dict doc_no_items) ''subtotal'' = Some VNone" by blast
  from a t have c2: "map_of (to_flat_dict doc_no_items) ''tax_amount'' = Some VNone" by blast
  from b l p have c3: "map_of (to_flat_dict doc_two_items) ''item_total_price'' = Some VNone"
    by blast
  from b i u have c4: "map_of (to_line_items_list doc_two_items ! 1) ''unit_price'' = Some VNone"
    by blast
  from z c1 c2 c3 c4 show ?thesis by (intro conjI)
qed



section \<open>The field validators\<close>

lemma py_strip_split:
  "\<exists>pre suf. s = pre @ py_strip s @ suf \<and> list_all is_space pre \<and> list_all is_space suf"
proof -
  let ?t = "dropWhile is_space s"
  let ?suf = "rev (takeWhile is_space (rev ?t))"
  have t: "?t = py_strip s @ ?suf"
    unfolding py_strip_def by (metis rev_append rev_rev_ident takeWhile_dropWhile_id)
  have "s = takeWhile is_space s @ ?t" by simp
  with t have "s = takeWhile is_space s @ py_strip s @ ?suf" by simp
  moreover have "list_all is_space (takeWhile is_space s)"
    by (simp add: list_all_iff) (meson set_takeWhileD)
  moreover have "list_all is_space ?suf"
    by (simp add: list_all_iff) (meson set_takeWhileD)
  ultimately show ?thesis by blast
qed

lemma py_strip_last: "py_strip s \<noteq> [] \<Longrightarrow> \<not> is_space (last (py_strip s))"
  by (simp add: py_strip_def last_rev hd_dropWhile)

lemma py_strip_hd: 
  assumes "py_strip s \<noteq> []"
  shows "\<not> is_space (hd (py_strip s))"
proof -
  let ?t = "dropWhile is_space s"
  obtain suf where t: "?t = py_strip s @ suf"
    by (metis py_strip_def rev_append rev_rev_ident takeWhile_dropWhile_id)
  with assms have "?t \<noteq> []" and "hd ?t = hd (py_strip s)" by auto
  then show ?thesis by (metis hd_dropWhile)
qed

lemma set_py_strip: "set (py_strip s) \<subseteq> set s"
  by (auto simp: py_strip_def dest!: set_dropWhileD)

text \<open>
  Claim C9. For a non-empty phone text, \<open>clean_phone\<close> returns a text made only of digits,
  \<open>+\<close>, \<open>-\<close>, parentheses and whitespace; it is the sequence of all such characters of
  the input, in order, without the whitespace at its two ends, and it neither starts nor
  ends with whitespace. The reference example is part of the statement.
\<close>

theorem clean_phone_keeps_phone_chars:
  assumes "v \<noteq> []"
  shows "(\<exists>r. clean_phone (Some v) = Some r
            \<and> list_all phone_char r
            \<and> (\<exists>pre suf. filter phone_char v = pre @ r @ suf
                  \<and> list_all is_space pre \<and> list_all is_space suf)
            \<and> (r \<noteq> [] \<longrightarrow> \<not> is_space (hd r) \<and> \<not> is_space (last r)))
       \<and> clean_phone (Some ''+1 (555) 123-4567 ext.9'') = Some ''+1 (555) 123-4567 9''"
proof -
  let ?r = "py_strip (filter phone_char v)"
  have c: "clean_phone (Some v) = Some ?r"
    using assms by (simp add: clean_phone_def)
  have "set ?r \<subseteq> set (filter phone_char v)" by (rule set_py_strip)
  then have a: "list_all phone_char ?r" by (auto simp: list_all_iff)
  have ex: "clean_phone (Some ''+1 (555) 123-4567 ext.9'') = Some ''+1 (555) 123-4567 9''"
    by (simp add: clean_phone_def py_strip_def phone_char_def is_digit_def is_space_def)
  from c a py_strip_split [of "filter phone_char v"] py_strip_hd [of "filter phone_char v"]
    py_strip_last [of "filter phone_char v"] ex
  show ?thesis by simp
qed

text \<open>The reference example.\<close>

theorem clean_phone_keeps_phone_chars_witness:
  "''+1 (555) 123-4567 ext.9'' \<noteq> []
   \<and> clean_phone (Some ''+1 (555) 123-4567 ext.9'') = Some ''+1 (555) 123-4567 9''
   \<and> list_all phone_char ''+1 (555) 123-4567 9''"
proof -
  have n: "''+1 (555) 123-4567 ext.9'' \<noteq> []" by simp
  from clean_phone_keeps_phone_chars [OF n] n show ?thesis by auto
qed

lemma takeWhile_no_digit: "\<not> list_ex is_digit t \<Longrightarrow> takeWhile is_digit t = []"
  by (cases t) (auto simp: list_ex_iff)

lemma split_sign_subset: "set (snd (split_sign u)) \<subseteq> set u"
  by (cases u) auto

lemma py_Decimal_no_digit:
  assumes "\<not> list_ex is_digit s"
  shows "py_Decimal s = None"
proof -
  let ?u = "filter (\<lambda>c. c \<noteq> CHR ''_'') (py_strip s)"
  obtain neg t where st: "split_sign ?u = (neg, t)" by (cases "split_sign ?u")
  have "set t \<subseteq> set ?u" using split_sign_subset [of ?u] by (simp add: st)
  also have "\<dots> \<subseteq> set s" using set_py_strip [of s] by auto
  finally have ts: "set t \<subseteq> set s" .
  with assms have nt: "\<not> list_ex is_digit t" by (auto simp: list_ex_iff)
  then have ip: "takeWhile is_digit t = []" by (rule takeWhile_no_digit)
  then have t2: "dropWhile is_digit t = t"
    by (metis append_Nil takeWhile_dropWhile_id)
  have "set (tl t) \<subseteq> set t" by (cases t) auto
  with nt have "\<not> list_ex is_digit (tl t)" by (auto simp: list_ex_iff)
  then have fp: "takeWhile is_digit (tl t) = []" by (rule takeWhile_no_digit)
  show ?thesis
    by (simp add: py_Decimal_def st ip t2 fp Let_def)
qed

lemma no_price_char_no_digit: "filter price_char s = [] \<Longrightarrow> \<not> list_ex is_digit s"
  by (auto simp: filter_empty_conv list_ex_iff price_char_def)

lemma decimal_validator_no_price_char:
  "filter price_char s = [] \<Longrightarrow> decimal_validator (RStr s) = Inl ValidationError"
  by (simp add: decimal_validator_def py_Decimal_no_digit no_price_char_no_digit)

text \<open>
  Claim C1, on the code. A text without any digit, point, comma or minus sign (such as
  \<open>ask cashier\<close>) is returned by each currency validator as it is, not as \<open>None\<close>:
  the \<open>if cleaned:\<close> block is skipped and \<open>return v\<close> is reached. The text is not a
  Decimal, so the type check rejects it and the constructor of the record raises, for each
  of the seven Decimal fields.
\<close>

theorem unparsable_text_not_absent:
  assumes "filter price_char s = []"
  shows "parse_price (RStr s) = RStr s \<and> parse_tax_amount (RStr s) = RStr s
       \<and> parse_amount (RStr s) = RStr s \<and> parse_amounts (RStr s) = RStr s
       \<and> LineItem_prices [(''unit_price'', RStr s)] = Inl ValidationError
       \<and> LineItem_prices [(''total_price'', RStr s)] = Inl ValidationError
       \<and> TaxInfo_tax_amount [(''tax_amount'', RStr s)] = Inl ValidationError
       \<and> PaymentInfo_amounts [(''paid_amount'', RStr s)] = Inl ValidationError
       \<and> PaymentInfo_amounts [(''balance_due'', RStr s)] = Inl ValidationError
       \<and> StructuredDocument_amounts [(''subtotal'', RStr s)] = Inl ValidationError
       \<and> StructuredDocument_amounts [(''total_amount'', RStr s)] = Inl ValidationError"
proof -
  note v = decimal_validator_no_price_char [OF assms]
  have p: "parse_price (RStr s) = RStr s" "parse_tax_amount (RStr s) = RStr s"
    "parse_amount (RStr s) = RStr s" "parse_amounts (RStr s) = RStr s"
    using assms
    by (simp_all add: parse_price_def parse_tax_amount_def parse_amount_def parse_amounts_def)
  show ?thesis
    by (simp add: p v LineItem_prices_def TaxInfo_tax_amount_def PaymentInfo_amounts_def
        StructuredDocument_amounts_def decimal_field_def)
qed

text \<open>The example of the specification, \<open>unit_price: "ask cashier"\<close>.\<close>

theorem unparsable_text_not_absent_witness:
  "filter price_char ''ask cashier'' = []
   \<and> parse_price (RStr ''ask cashier'') = RStr ''ask cashier''
   \<and> LineItem_prices [(''unit_price'', RStr ''ask cashier'')] = Inl ValidationError"
proof -
  have f: "filter price_char ''ask cashier'' = []"
    by (simp add: price_char_def is_digit_def)
  from unparsable_text_not_absent [OF f] f show ?thesis by simp
qed

lemmas price_eval = parse_price_def price_char_def is_digit_def py_Decimal_def py_strip_def
  is_space_def digits_nat_def digit_val_def Let_def

text \<open>
  Claim C3, on the code. The three texts with a number in them give the Decimals 1234.56,
  1234.56 and -12.00. The texts \<open>N/A\<close> and the empty text are returned unchanged instead
  of \<open>None\<close>, and a record built with them raises.
\<close>

theorem parse_price_reference_examples:
  "parse_price (RStr ''$1,234.56'') = RDecimal \<lparr>dec_neg = False, dec_coeff = 123456, dec_exp = - 2\<rparr>
   \<and> parse_price (RStr ''USD 1234.56'')
       = RDecimal \<lparr>dec_neg = False, dec_coeff = 123456, dec_exp = - 2\<rparr>
   \<and> parse_price (RStr ''  - 12.00 '') = RDecimal \<lparr>dec_neg = True, dec_coeff = 1200, dec_exp = - 2\<rparr>
   \<and> dec_value \<lparr>dec_neg = False, dec_coeff = 123456, dec_exp = - 2\<rparr> = 123456 / 100
   \<and> dec_value \<lparr>dec_neg = True, dec_coeff = 1200, dec_exp = - 2\<rparr> = - 12
   \<and> parse_price (RStr ''N/A'') = RStr ''N/A''
   \<and> parse_price (RStr '''') = RStr ''''
   \<and> LineItem_prices [(''unit_price'', RStr ''N/A'')] = Inl ValidationError
   \<and> LineItem_prices [(''unit_price'', RStr '''')] = Inl ValidationError"
proof -
  have a: "parse_price (RStr ''$1,234.56'')
      = RDecimal \<lparr>dec_neg = False, dec_coeff = 123456, dec_exp = - 2\<rparr>"
    by (simp add: price_eval)
  have b: "parse_price (RStr ''USD 1234.56'')
      = RDecimal \<lparr>dec_neg = False, dec_coeff = 123456, dec_exp = - 2\<rparr>"
    by (simp add: price_eval)
  have c: "parse_price (RStr ''  - 12.00 '')
      = RDecimal \<lparr>dec_neg = True, dec_coeff = 1200, dec_exp = - 2\<rparr>"
    by (simp add: price_eval)
  have d: "dec_value \<lparr>dec_neg = False, dec_coeff = 123456, dec_exp = - 2\<rparr> = 123456 / 100"
    by (simp add: dec_value_def)
  have e: "dec_value \<lparr>dec_neg = True, dec_coeff = 1200, dec_exp = - 2\<rparr> = - 12"
    by (simp add: dec_value_def)
  have f: "parse_price (RStr ''N/A'') = RStr ''N/A''"
    by (simp add: price_eval)
  have g: "parse_price (RStr '''') = RStr ''''"
    by (simp add: price_eval)
  have h: "LineItem_prices [(''unit_price'', RStr ''N/A'')] = Inl ValidationError"
    by (simp add: LineItem_prices_def decimal_field_def f decimal_validator_def price_eval)
  have i: "LineItem_prices [(''unit_price'', RStr '''')] = Inl ValidationError"
    by (simp add: LineItem_prices_def decimal_field_def g decimal_validator_def price_eval)
  from a b c d e f g h i show ?thesis by (intro conjI)
qed

text \<open>
  Claim C2, on the code. \<open>03/15/2024\<close> gives March 15, 2024. \<open>2024-03-15\<close> gives March
  15, 2015: the year is read from the last group, the day \<open>15\<close>, which has two digits.
  \<open>03/15/24\<close> and \<open>03/15/76\<close> match the third pattern only, whose groups are read as
  year, month 15, day; no such date exists and the text is returned unchanged.
\<close>

theorem parse_date_reference_examples:
  "parse_date (RStr ''03/15/2024'') = RDate \<lparr>year = 2024, month = 3, day = 15\<rparr>
   \<and> parse_date (RStr ''2024-03-15'') = RDate \<lparr>year = 2015, month = 3, day = 15\<rparr>
   \<and> parse_date (RStr ''03/15/24'') = RStr ''03/15/24''
   \<and> parse_date (RStr ''03/15/76'') = RStr ''03/15/76''"
proof -
  have a: "parse_date (RStr ''03/15/2024'') = RDate \<lparr>year = 2024, month = 3, day = 15\<rparr>"
    by code_simp
  have b: "parse_date (RStr ''2024-03-15'') = RDate \<lparr>year = 2015, month = 3, day = 15\<rparr>"
    by code_simp
  have c: "parse_date (RStr ''03/15/24'') = RStr ''03/15/24''"
    by code_simp
  have d: "parse_date (RStr ''03/15/76'') = RStr ''03/15/76''"
    by code_simp
  from a b c d show ?thesis by (intro conjI)
qed

lemma parse_date_loop_first_some:
  "parse_date_loop pats v =
     (case first_some (map (\<lambda>p. date_attempt p v) pats) of Some d \<Rightarrow> RDate d | None \<Rightarrow> RStr v)"
  by (induction pats) (auto simp: date_attempt_def split: option.split)

lemma date_attempt_no_match: "re_search p v = None \<Longrightarrow> date_attempt p v = None"
  by (simp add: date_attempt_def)

text \<open>
  Claim C4, as amended. The patterns are tried in their fixed order, and the first one
  that matches and yields a valid date decides the result, whatever the later patterns
  would give; a pattern that matches without yielding a valid date is passed over. When
  no pattern yields a date, in particular when none matches, the text is returned
  unchanged.
\<close>

theorem parse_date_first_valid_pattern_wins:
  "parse_date (RStr v) =
      (case first_some (map (\<lambda>p. date_attempt p v) date_patterns) of
         Some d \<Rightarrow> RDate d | None \<Rightarrow> RStr v)
   \<and> (\<forall>d. date_attempt (date_patterns ! 0) v = Some d \<longrightarrow> parse_date (RStr v) = RDate d)
   \<and> (\<forall>d. date_attempt (date_patterns ! 0) v = None
          \<and> date_attempt (date_patterns ! 1) v = Some d \<longrightarrow> parse_date (RStr v) = RDate d)
   \<and> (\<forall>d. date_attempt (date_patterns ! 0) v = None
          \<and> date_attempt (date_patterns ! 1) v = None
          \<and> date_attempt (date_patterns ! 2) v = Some d \<longrightarrow> parse_date (RStr v) = RDate d)
   \<and> (date_attempt (date_patterns ! 0) v = None
          \<and> date_attempt (date_patterns ! 1) v = None
          \<and> date_attempt (date_patterns ! 2) v = None \<longrightarrow> parse_date (RStr v) = RStr v)
   \<and> ((\<forall>p \<in> set date_patterns. re_search p v = None) \<longrightarrow> parse_date (RStr v) = RStr v)"
proof -
  have l: "parse_date (RStr v) =
      (case first_some (map (\<lambda>p. date_attempt p v) date_patterns) of
         Some d \<Rightarrow> RDate d | None \<Rightarrow> RStr v)"
    by (simp add: parse_date_def parse_date_loop_first_some)
  obtain p0 p1 p2 where ps: "date_patterns = [p0, p1, p2]"
    by (simp add: date_patterns_def)
  show ?thesis
    unfolding l by (auto simp: ps date_attempt_no_match split: option.split)
qed

text \<open>In \<open>2024-01-02/2003\<close> the first and the second pattern both match; the first one
  decides.\<close>

theorem parse_date_first_valid_pattern_wins_witness:
  "date_attempt (date_patterns ! 0) ''2024-01-02/2003'' = Some \<lparr>year = 2003, month = 1, day = 2\<rparr>
   \<and> re_search (date_patterns ! 1) ''2024-01-02/2003'' = Some [''2024'', ''01'', ''02'']
   \<and> parse_date (RStr ''2024-01-02/2003'') = RDate \<lparr>year = 2003, month = 1, day = 2\<rparr>"
proof -
  have a: "date_attempt (date_patterns ! 0) ''2024-01-02/2003''
      = Some \<lparr>year = 2003, month = 1, day = 2\<rparr>"
    by code_simp
  have b: "re_search (date_patterns ! 1) ''2024-01-02/2003'' = Some [''2024'', ''01'', ''02'']"
    by code_simp
  from parse_date_first_valid_pattern_wins [of "''2024-01-02/2003''"] a
  have "parse_date (RStr ''2024-01-02/2003'') = RDate \<lparr>year = 2003, month = 1, day = 2\<rparr>"
    by blast
  with a b show ?thesis by (intro conjI)
qed

text \<open>
  The claim as it was stated fails at \<open>31/12/2024\<close>: the first pattern matches, its
  groups give no valid date (month 31), and the result is the date that the third pattern
  yields, not the unparsed text.
\<close>

theorem parse_date_first_match_counterexample:
  "re_search (date_patterns ! 0) ''31/12/2024'' = Some [''31'', ''12'', ''2024'']
   \<and> date_of_groups (date_patterns ! 0) [''31'', ''12'', ''2024''] = None
   \<and> re_search (date_patterns ! 2) ''31/12/2024'' = Some [''31'', ''12'', ''20'']
   \<and> parse_date (RStr ''31/12/2024'') = RDate \<lparr>year = 2020, month = 12, day = 20\<rparr>
   \<and> parse_date_first_match_wins ''31/12/2024'' = RStr ''31/12/2024''
   \<and> parse_date (RStr ''31/12/2024'') \<noteq> parse_date_first_match_wins ''31/12/2024''"
proof -
  have a: "re_search (date_patterns ! 0) ''31/12/2024'' = Some [''31'', ''12'', ''2024'']"
    by code_simp
  have b: "date_of_groups (date_patterns ! 0) [''31'', ''12'', ''2024''] = None"
    by code_simp
  have c: "re_search (date_patterns ! 2) ''31/12/2024'' = Some [''31'', ''12'', ''20'']"
    by code_simp
  have d: "parse_date (RStr ''31/12/2024'') = RDate \<lparr>year = 2020, month = 12, day = 20\<rparr>"
    by code_simp
  have e: "parse_date_first_match_wins ''31/12/2024'' = RStr ''31/12/2024''"
    by code_simp
  from d e have f: "parse_date (RStr ''31/12/2024'') \<noteq> parse_date_first_match_wins ''31/12/2024''"
    by simp
  from a b c d e f show ?thesis by (intro conjI)
qed

end
